theory Spec2Isabelle
  imports Main
begin

section \<open>Python values, exceptions and the outside world\<close>

text \<open>
  The program is a Streamlit script (\<^verbatim>\<open>src/app.py\<close>) that talks to a Snowflake cursor.
  Strings are modelled as \<^typ>\<open>string\<close>, read as UTF-8 byte sequences; the only character the
  program ever searches for is the ASCII single quote, whose byte never occurs inside a
  multi-byte UTF-8 sequence.
\<close>

definition squote :: string where
  "squote = [CHR 0x27]"

definition nl :: string where
  "nl = [CHR 0x0A]"

text \<open>
  Exceptions. Every constructor is a subclass of Python's \<^verbatim>\<open>Exception\<close>, so every one of them
  is caught by \<^verbatim>\<open>except Exception\<close>. \<open>UnboundLocalError\<close> carries the name of the
  local variable, \<open>KeyError\<close> the missing key, \<open>DatabaseError\<close> and \<open>OSError\<close> the message
  of the failing service or operating-system call.
\<close>

datatype exn =
    TypeError
  | UnboundLocalError string
  | AttributeError
  | KeyError string
  | IndexError
  | ValueError
  | OSError string
  | DatabaseError string

text \<open>A value in a row returned by the cursor: text, a number, or SQL NULL.\<close>

datatype cell = PyStr string | PyInt int | PyNone

text \<open>
  What one \<^verbatim>\<open>cursor.execute(cmd)\<close> makes available: the column names
  (\<^verbatim>\<open>[col[0] for col in cursor.description]\<close>) and the rows of \<^verbatim>\<open>cursor.fetchall()\<close>.
\<close>

record result_set =
  description :: "string list"
  rows :: "cell list list"

text \<open>
  The remote service is opaque: a cursor answers a statement, possibly depending on the
  statements executed before it, with an exception or a result set. In every place of the
  source, \<^verbatim>\<open>execute\<close>, \<^verbatim>\<open>fetchall\<close>/\<^verbatim>\<open>fetchone\<close> and \<^verbatim>\<open>description\<close> sit inside one
  \<^verbatim>\<open>try\<close> block, so a failure of any of the three is one failure of the remote call.
\<close>

type_synonym cursor_t = "string list \<Rightarrow> string \<Rightarrow> exn + result_set"

record message =
  role :: string
  content :: string

record uploaded_file =
  file_name :: string
  file_bytes :: string

datatype ui_event =
    St_title string
  | St_write string
  | St_write_exn string exn
  | St_success string
  | St_error string
  | St_error_exn string exn
  | St_dataframe "cell list"
  | St_chat_message string
  | St_markdown string
  | St_spinner string
  | St_sidebar_text string
  | St_sidebar_caption string

text \<open>
  The state a run of the script reads and writes.
  \<^item> \<open>cursor\<close>: the module-level \<^verbatim>\<open>cursor\<close> (\<open>None\<close> when connecting failed, line 32);
    \<open>executed\<close>: the statements handed to \<^verbatim>\<open>cursor.execute\<close>, in order.
  \<^item> \<open>messages\<close>, \<open>model_name\<close>, \<open>use_chat_history\<close>, \<open>debug\<close>, \<open>clear_conversation\<close>:
    the keys of \<^verbatim>\<open>st.session_state\<close>; \<open>messages = None\<close> is an absent key.
  \<^item> \<open>ui\<close>: what has been rendered.
  \<^item> \<open>files\<close>: the scratch files on disk with their contents; \<open>tmp_create\<close> is what
    \<^verbatim>\<open>tempfile.NamedTemporaryFile(delete=False)\<close> will do (fail, or create a file of that
    name), \<open>tmp_write\<close> whether \<^verbatim>\<open>temp_file.write\<close> will fail.
  \<^item> \<open>repr_str\<close>: Python's built-in \<^verbatim>\<open>repr\<close> on \<^verbatim>\<open>str\<close>, which the source uses when it
    formats a list of strings into an f-string; it is a parameter of the model.
\<close>

record world =
  cursor :: "cursor_t option"
  executed :: "string list"
  messages :: "message list option"
  model_name :: string
  use_chat_history :: bool
  debug :: bool
  clear_conversation :: bool
  ui :: "ui_event list"
  files :: "string \<rightharpoonup> string"
  tmp_create :: "exn + string"
  tmp_write :: "exn option"
  repr_str :: "string \<Rightarrow> string"

text \<open>
  A Python computation: it ends with a value or with a raised exception, and the state
  changes it made before raising persist.
\<close>

type_synonym 'a py = "world \<Rightarrow> (exn + 'a) \<times> world"

definition py_return :: "'a \<Rightarrow> 'a py" where
  "py_return x w = (Inr x, w)"

definition py_raise :: "exn \<Rightarrow> 'a py" where
  "py_raise e w = (Inl e, w)"

definition py_lift :: "exn + 'a \<Rightarrow> 'a py" where
  "py_lift r w = (r, w)"

definition py_bind :: "'a py \<Rightarrow> ('a \<Rightarrow> 'b py) \<Rightarrow> 'b py" where
  "py_bind m f w = (case m w of (Inl e, w') \<Rightarrow> (Inl e, w') | (Inr x, w') \<Rightarrow> f x w')"

text \<open>\<^verbatim>\<open>try: m  except Exception as e: h e\<close>\<close>

definition py_try :: "'a py \<Rightarrow> (exn \<Rightarrow> 'a py) \<Rightarrow> 'a py" where
  "py_try m h w = (case m w of (Inl e, w') \<Rightarrow> h e w' | (Inr x, w') \<Rightarrow> (Inr x, w'))"

definition py_get :: "(world \<Rightarrow> 'a) \<Rightarrow> 'a py" where
  "py_get f w = (Inr (f w), w)"

definition st_emit :: "ui_event \<Rightarrow> unit py" where
  "st_emit ev w = (Inr (), w\<lparr>ui := ui w @ [ev]\<rparr>)"

text \<open>\<^verbatim>\<open>c.execute(cmd)\<close> followed by reading the rows and the description.\<close>

definition execute :: "cursor_t \<Rightarrow> string \<Rightarrow> result_set py" where
  "execute c cmd w = (c (executed w) cmd, w\<lparr>executed := executed w @ [cmd]\<rparr>)"

text \<open>The same on the module-level cursor; \<^verbatim>\<open>None.execute\<close> is an AttributeError.\<close>

definition cursor_execute :: "string \<Rightarrow> result_set py" where
  "cursor_execute cmd w =
     (case cursor w of None \<Rightarrow> (Inl AttributeError, w) | Some c \<Rightarrow> execute c cmd w)"

subsection \<open>Strings\<close>

text \<open>\<^verbatim>\<open>s.replace(old, new)\<close> for a one-character \<open>old\<close>, the only use in the source.\<close>

definition str_replace :: "char \<Rightarrow> string \<Rightarrow> string \<Rightarrow> string" where
  "str_replace old new s = concat (map (\<lambda>c. if c = old then new else [c]) s)"

text \<open>\<^verbatim>\<open>sep.join(xs)\<close> on a list of strings.\<close>

fun str_join :: "string \<Rightarrow> string list \<Rightarrow> string" where
  "str_join sep [] = []"
| "str_join sep [x] = x"
| "str_join sep (x # y # ys) = x @ sep @ str_join sep (y # ys)"

definition digit_chr :: "nat \<Rightarrow> char" where
  "digit_chr d = char_of (48 + d)"

fun str_nat :: "nat \<Rightarrow> string" where
  "str_nat n = (if n < 10 then [digit_chr n] else str_nat (n div 10) @ [digit_chr (n mod 10)])"

definition str_int :: "int \<Rightarrow> string" where
  "str_int i = (if i < 0 then ''-'' @ str_nat (nat (- i)) else str_nat (nat i))"

text \<open>\<^verbatim>\<open>str(v)\<close> of a cell, as an f-string formats it.\<close>

fun str_cell :: "cell \<Rightarrow> string" where
  "str_cell (PyStr s) = s"
| "str_cell (PyInt i) = str_int i"
| "str_cell PyNone = ''None''"

text \<open>\<^verbatim>\<open>str(xs)\<close> of a list of strings: the \<^verbatim>\<open>repr\<close> of each element, comma-separated, in brackets.\<close>

definition str_list :: "(string \<Rightarrow> string) \<Rightarrow> string list \<Rightarrow> string" where
  "str_list repr xs = ''['' @ str_join '', '' (map repr xs) @ '']''"

text \<open>\<^verbatim>\<open>v.replace(old, new)\<close> on a cell: only \<^verbatim>\<open>str\<close> has the method.\<close>

fun cell_replace :: "char \<Rightarrow> string \<Rightarrow> cell \<Rightarrow> exn + string" where
  "cell_replace old new (PyStr s) = Inr (str_replace old new s)"
| "cell_replace old new (PyInt i) = Inl AttributeError"
| "cell_replace old new PyNone = Inl AttributeError"

text \<open>\<^verbatim>\<open>sep.join(vs)\<close> on cells: a TypeError at the first element that is not a \<^verbatim>\<open>str\<close>.\<close>

fun cells_strs :: "cell list \<Rightarrow> exn + string list" where
  "cells_strs [] = Inr []"
| "cells_strs (PyStr s # vs) = (case cells_strs vs of Inl e \<Rightarrow> Inl e | Inr ss \<Rightarrow> Inr (s # ss))"
| "cells_strs (v # vs) = Inl TypeError"

definition str_join_cells :: "string \<Rightarrow> cell list \<Rightarrow> exn + string" where
  "str_join_cells sep vs = (case cells_strs vs of Inl e \<Rightarrow> Inl e | Inr ss \<Rightarrow> Inr (str_join sep ss))"

subsection \<open>pandas\<close>

text \<open>
  A DataFrame built from the cursor's rows. A DB-API cursor returns rows with one cell per
  entry of the description, and the columns selected by one statement of the source have
  distinct names; for such data the constructor succeeds. Data whose rows do not all have
  as many cells as there are column names is rejected with a ValueError.
\<close>

record dataframe =
  df_columns :: "string list"
  df_rows :: "cell list list"

definition pd_DataFrame :: "cell list list \<Rightarrow> string list \<Rightarrow> exn + dataframe" where
  "pd_DataFrame data cols =
     (if list_all (\<lambda>r. length r = length cols) data
      then Inr \<lparr>df_columns = cols, df_rows = data\<rparr> else Inl ValueError)"

text \<open>\<^verbatim>\<open>df.empty\<close>: some axis has length 0.\<close>

definition df_empty :: "dataframe \<Rightarrow> bool" where
  "df_empty df = (df_rows df = [] \<or> df_columns df = [])"

text \<open>The position of a column label.\<close>

fun col_index :: "string list \<Rightarrow> string \<Rightarrow> nat option" where
  "col_index [] c = None"
| "col_index (x # xs) c = (if x = c then Some 0 else map_option Suc (col_index xs c))"

text \<open>\<^verbatim>\<open>df[c]\<close>: the column as a Series, KeyError when there is no such label.\<close>

definition df_getitem :: "dataframe \<Rightarrow> string \<Rightarrow> exn + cell list" where
  "df_getitem df c =
     (case col_index (df_columns df) c of
        None \<Rightarrow> Inl (KeyError c)
      | Some i \<Rightarrow> Inr (map (\<lambda>r. r ! i) (df_rows df)))"

text \<open>\<^verbatim>\<open>df.iloc[0][c]\<close>: IndexError without a first row, KeyError without the label.\<close>

definition df_iloc0_getitem :: "dataframe \<Rightarrow> string \<Rightarrow> exn + cell" where
  "df_iloc0_getitem df c =
     (case df_rows df of
        [] \<Rightarrow> Inl IndexError
      | r # _ \<Rightarrow> (case col_index (df_columns df) c of
                   None \<Rightarrow> Inl (KeyError c)
                 | Some i \<Rightarrow> Inr (r ! i)))"

text \<open>
  \<^verbatim>\<open>series.replace(old, new)\<close> with scalar arguments replaces the values that are equal to
  \<open>old\<close>; it does not look inside a value.
\<close>

definition series_replace :: "cell \<Rightarrow> cell \<Rightarrow> cell list \<Rightarrow> cell list" where
  "series_replace old new vs = map (\<lambda>v. if v = old then new else v) vs"

section \<open>The program\<close>

subsection \<open>Module-level defaults (lines 38-39)\<close>

definition num_chunks :: int where
  "num_chunks = 3"

definition slide_window :: int where
  "slide_window = 7"

subsection \<open>Python built-ins used by the program\<close>

text \<open>\<^verbatim>\<open>range(a, b)\<close>\<close>

definition py_range :: "int \<Rightarrow> int \<Rightarrow> int list" where
  "py_range a b = [a..b - 1]"

text \<open>\<^verbatim>\<open>xs[i]\<close> on a list or tuple: a negative index counts from the end, anything else out of range raises.\<close>

definition list_getitem :: "'a list \<Rightarrow> int \<Rightarrow> exn + 'a" where
  "list_getitem xs i =
     (if 0 \<le> i \<and> i < int (length xs) then Inr (xs ! nat i)
      else if i < 0 \<and> - int (length xs) \<le> i then Inr (xs ! nat (int (length xs) + i))
      else Inl IndexError)"

text \<open>
  Calling a function of two required positional parameters. A slot that the call site leaves
  out is \<open>None\<close>; Python raises TypeError before the body runs.
\<close>

definition py_call2 :: "('a \<Rightarrow> 'b \<Rightarrow> 'r py) \<Rightarrow> 'a option \<Rightarrow> 'b option \<Rightarrow> 'r py" where
  "py_call2 f a b =
     (case a of
        None \<Rightarrow> py_raise TypeError
      | Some x \<Rightarrow> (case b of None \<Rightarrow> py_raise TypeError | Some y \<Rightarrow> f x y))"

text \<open>\<^verbatim>\<open>os.remove(path)\<close>\<close>

definition os_remove :: "string \<Rightarrow> unit py" where
  "os_remove path w =
     (case files w path of
        None \<Rightarrow> (Inl (OSError ''No such file or directory''), w)
      | Some _ \<Rightarrow> (Inr (), w\<lparr>files := (files w)(path := None)\<rparr>))"

text \<open>\<^verbatim>\<open>os.path.exists(path)\<close>\<close>

definition os_path_exists :: "string \<Rightarrow> world \<Rightarrow> bool" where
  "os_path_exists path w = (files w path \<noteq> None)"

text \<open>\<^verbatim>\<open>st.session_state.messages\<close>: an AttributeError when the key is absent.\<close>

definition session_messages :: "message list py" where
  "session_messages w =
     (case messages w of None \<Rightarrow> (Inl AttributeError, w) | Some ms \<Rightarrow> (Inr ms, w))"

text \<open>\<^verbatim>\<open>st.session_state.messages.append(m)\<close>\<close>

definition session_append :: "message \<Rightarrow> unit py" where
  "session_append m w =
     (case messages w of
        None \<Rightarrow> (Inl AttributeError, w)
      | Some ms \<Rightarrow> (Inr (), w\<lparr>messages := Some (ms @ [m])\<rparr>))"

subsection \<open>\<^verbatim>\<open>display_snowflake_details\<close> (lines 96-107)\<close>

definition display_snowflake_details :: "unit py" where
  "display_snowflake_details =
     py_bind (py_get cursor) (\<lambda>c.
       if c \<noteq> None then
         py_try
           (py_bind (cursor_execute ''SELECT CURRENT_WAREHOUSE(), CURRENT_DATABASE(), CURRENT_SCHEMA()'') (\<lambda>rs.
              case rows rs of
                [] \<Rightarrow> py_raise TypeError
              | r # _ \<Rightarrow>
                  (case r of
                     [warehouse, database, schema] \<Rightarrow>
                       py_bind (st_emit (St_write (''**Warehouse**: '' @ str_cell warehouse))) (\<lambda>_.
                       py_bind (st_emit (St_write (''**Database**: '' @ str_cell database))) (\<lambda>_.
                       st_emit (St_write (''**Schema**: '' @ str_cell schema))))
                   | _ \<Rightarrow> py_raise ValueError)))
           (\<lambda>e. st_emit (St_write_exn ''Error fetching Snowflake connection details:'' e))
       else st_emit (St_write ''No Snowflake connection available.''))"

subsection \<open>\<^verbatim>\<open>upload_to_snowflake\<close> (lines 110-135)\<close>

definition put_command :: "string \<Rightarrow> string" where
  "put_command temp_file_path =
     ''PUT '' @ squote @ ''file://'' @ temp_file_path @ squote @
     ''@ARYAN_GUPTA_DB.DATA.DOCS AUTO_COMPRESS=TRUE''"

text \<open>
  The body of the \<^verbatim>\<open>try\<close> (lines 117-128). Besides its outcome it returns the binding of
  the local variable \<^verbatim>\<open>temp_file_path\<close> (\<open>None\<close>: not bound), which the \<^verbatim>\<open>finally\<close> block
  reads. The \<^verbatim>\<open>with\<close> block creates the file (\<^verbatim>\<open>delete=False\<close>: closing it does not remove
  it), writes the content, and only then binds the variable.
\<close>

definition upload_try :: "cursor_t \<Rightarrow> string \<Rightarrow> string \<Rightarrow> world \<Rightarrow> ((exn + unit) \<times> string option) \<times> world" where
  "upload_try c fname file_content w =
     (case tmp_create w of
        Inl e \<Rightarrow> ((Inl e, None), w)
      | Inr tname \<Rightarrow>
          (let w1 = w\<lparr>files := (files w)(tname \<mapsto> [])\<rparr> in
           case tmp_write w1 of
             Some e \<Rightarrow> ((Inl e, None), w1)
           | None \<Rightarrow>
               (let w2 = w1\<lparr>files := (files w1)(tname \<mapsto> file_content)\<rparr>;
                    temp_file_path = tname;
                    (r, w3) =
                      py_bind (execute c (put_command temp_file_path)) (\<lambda>_.
                      py_bind (os_remove temp_file_path) (\<lambda>_.
                      st_emit (St_success (''File '' @ squote @ fname @ squote @
                        '' successfully uploaded to stage @ARYAN_GUPTA_DB.DATA.DOCS.'')))) w2
                in ((r, Some temp_file_path), w3))))"

definition upload_to_snowflake :: "uploaded_file \<Rightarrow> cursor_t option \<Rightarrow> unit py" where
  "upload_to_snowflake uploaded_file cursor_arg w =
     (case cursor_arg of
        None \<Rightarrow> st_emit (St_error ''No connection to Snowflake for file upload.'') w
      | Some c \<Rightarrow>
          (let fname = file_name uploaded_file;
               file_content = file_bytes uploaded_file;
               ((r, temp_file_path), w1) = upload_try c fname file_content w;
               (r', w2) = (case r of
                             Inl e \<Rightarrow> st_emit (St_error_exn ''Error uploading file to Snowflake: '' e) w1
                           | Inr u \<Rightarrow> (Inr u, w1))
           in case temp_file_path of
                None \<Rightarrow> (Inl (UnboundLocalError ''temp_file_path''), w2)
              | Some path \<Rightarrow>
                  if os_path_exists path w2
                  then (case os_remove path w2 of
                          (Inl e, w3) \<Rightarrow> (Inl e, w3)
                        | (Inr _, w3) \<Rightarrow> (r', w3))
                  else (r', w2)))"

subsection \<open>\<^verbatim>\<open>config_options\<close> and \<^verbatim>\<open>init_messages\<close> (lines 138-149)\<close>

text \<open>What the user did on the page before this run of the script.\<close>

record inputs =
  uploaded :: "uploaded_file option"
  chat_input :: "string option"
  sel_model_name :: string
  chk_use_chat_history :: bool
  chk_debug :: bool
  btn_clear_conversation :: bool

text \<open>Each widget stores its value in the session state under its \<^verbatim>\<open>key\<close>.\<close>

definition config_options :: "inputs \<Rightarrow> unit py" where
  "config_options inp w =
     (Inr (), w\<lparr>model_name := sel_model_name inp,
                use_chat_history := chk_use_chat_history inp,
                debug := chk_debug inp,
                clear_conversation := btn_clear_conversation inp\<rparr>)"

definition init_messages :: "unit py" where
  "init_messages w =
     (if clear_conversation w \<or> messages w = None
      then (Inr (), w\<lparr>messages := Some []\<rparr>) else (Inr (), w))"

subsection \<open>\<^verbatim>\<open>get_similar_chunks\<close> (lines 151-173)\<close>

text \<open>The f-string of lines 153-164.\<close>

definition similar_chunks_cmd :: "string \<Rightarrow> string" where
  "similar_chunks_cmd question =
   nl @
   ''        WITH results AS ('' @ nl @
   ''            SELECT RELATIVE_PATH, '' @ nl @
   ''            VECTOR_COSINE_SIMILARITY(docs_chunks_table.chunk_vec, '' @ nl @
   ''            SNOWFLAKE.CORTEX.EMBED_TEXT_768('' @ squote @ ''e5-base-v2'' @ squote @ '', '' @ squote @ question @ squote @ '')) AS similarity, '' @ nl @
   ''            chunk'' @ nl @
   ''            FROM docs_chunks_table'' @ nl @
   ''            ORDER BY similarity DESC'' @ nl @
   ''            LIMIT '' @ str_int num_chunks @ nl @
   ''        )'' @ nl @
   ''        SELECT chunk, relative_path FROM results'' @ nl @
   ''    ''"

definition get_similar_chunks :: "string \<Rightarrow> string py" where
  "get_similar_chunks question =
     (let cmd = similar_chunks_cmd question in
      py_try
        (py_bind (cursor_execute cmd) (\<lambda>rs.
         py_bind (py_lift (pd_DataFrame (rows rs) (description rs))) (\<lambda>df_chunks.
         py_bind (py_lift (df_getitem df_chunks ''CHUNK'')) (\<lambda>chunk_col.
         py_lift (str_join_cells [] (series_replace (PyStr squote) (PyStr []) chunk_col))))))
        (\<lambda>e. py_bind (st_emit (St_error_exn ''Error fetching similar chunks: '' e)) (\<lambda>_.
             py_return [])))"

subsection \<open>\<^verbatim>\<open>get_chat_history\<close> (lines 179-185)\<close>

text \<open>The \<^verbatim>\<open>for\<close> loop over the indices, appending to \<^verbatim>\<open>chat_history\<close>.\<close>

fun chat_history_loop :: "message list \<Rightarrow> int list \<Rightarrow> string list \<Rightarrow> exn + string list" where
  "chat_history_loop msgs [] chat_history = Inr chat_history"
| "chat_history_loop msgs (i # idxs) chat_history =
     (case list_getitem msgs i of
        Inl e \<Rightarrow> Inl e
      | Inr m \<Rightarrow> chat_history_loop msgs idxs (chat_history @ [content m]))"

definition get_chat_history :: "string list py" where
  "get_chat_history =
     py_bind session_messages (\<lambda>msgs.
       let start_index = max 0 (int (length msgs) - slide_window)
       in py_lift (chat_history_loop msgs (py_range start_index (int (length msgs) - 1)) []))"

subsection \<open>\<^verbatim>\<open>summarize_question_with_history\<close> (lines 189-231)\<close>

text \<open>The f-string of lines 197-208.\<close>

definition summarize_prompt :: "string \<Rightarrow> string \<Rightarrow> string" where
  "summarize_prompt chat_history_str question =
   nl @
   ''        Based on the chat history below and the question, generate a query that extends the question'' @ nl @
   ''        with the chat history provided. The query should be in natural language. '' @ nl @
   ''        Answer with only the query. Do not add any explanation.'' @ nl @
   ''        '' @ nl @
   ''        <chat_history>'' @ nl @
   ''        '' @ chat_history_str @ nl @
   ''        </chat_history>'' @ nl @
   ''        <question>'' @ nl @
   ''        '' @ question @ nl @
   ''        </question>'' @ nl @
   ''    ''"

text \<open>The f-string of line 211, and again of line 287.\<close>

definition cortex_complete_cmd :: "string \<Rightarrow> string \<Rightarrow> string" where
  "cortex_complete_cmd model prompt =
     ''SELECT snowflake.cortex.complete('' @ squote @ model @ squote @ '', '' @
     squote @ prompt @ squote @ '') AS response''"

definition summarize_question_with_history :: "string list \<Rightarrow> string \<Rightarrow> string py" where
  "summarize_question_with_history chat_history question0 =
     (let chat_history_str = str_replace (CHR 0x27) (squote @ squote) (str_join '' '' chat_history);
          question = str_replace (CHR 0x27) (squote @ squote) question0;
          prompt = summarize_prompt chat_history_str question
      in py_bind (py_get model_name) (\<lambda>model.
         let cmd = cortex_complete_cmd model prompt in
         py_try
           (py_bind (cursor_execute cmd) (\<lambda>rs.
            py_bind (py_lift (pd_DataFrame (rows rs) (description rs))) (\<lambda>df_response.
            py_bind (if \<not> df_empty df_response
                     then py_bind (py_lift (df_iloc0_getitem df_response ''RESPONSE'')) (\<lambda>v.
                          py_lift (cell_replace (CHR 0x27) [] v))
                     else py_return []) (\<lambda>summary.
            py_bind (py_get debug) (\<lambda>dbg.
            py_bind (if dbg
                     then py_bind (st_emit (St_sidebar_text
                                     ''Summary to be used to find similar chunks in the docs:'')) (\<lambda>_.
                          st_emit (St_sidebar_caption summary))
                     else py_return ()) (\<lambda>_.
            py_return summary))))))
           (\<lambda>e. py_bind (st_emit (St_error_exn ''Error summarizing question with history: '' e)) (\<lambda>_.
                py_return []))))"

subsection \<open>\<^verbatim>\<open>create_prompt\<close> (lines 234-275)\<close>

text \<open>
  The local \<^verbatim>\<open>chat_history\<close> holds the list returned by \<^verbatim>\<open>get_chat_history\<close>, or the
  empty string when the history is switched off; the f-string formats either with \<^verbatim>\<open>str\<close>.
\<close>

datatype hist = HistList "string list" | HistStr string

fun format_hist :: "(string \<Rightarrow> string) \<Rightarrow> hist \<Rightarrow> string" where
  "format_hist repr (HistList xs) = str_list repr xs"
| "format_hist repr (HistStr s) = s"

text \<open>The f-string of lines 252-274.\<close>

definition prompt_template :: "string \<Rightarrow> string \<Rightarrow> string \<Rightarrow> string" where
  "prompt_template chat_history prompt_context myquestion =
   nl @
   ''       You are an expert chat assistant that extracts information from the CONTEXT provided'' @ nl @
   ''       between <context> and </context> tags.'' @ nl @
   ''       You offer a chat experience considering the information included in the CHAT HISTORY'' @ nl @
   ''       provided between <chat_history> and </chat_history> tags.'' @ nl @
   ''       When answering the question contained between <question> and </question> tags,'' @ nl @
   ''       be concise and do not hallucinate. '' @ nl @
   ''       If you don'' @ [CHR 0xC3, CHR 0xA2] @ [CHR 0xE2, CHR 0x82, CHR 0xAC] @ [CHR 0xE2, CHR 0x84, CHR 0xA2] @ ''t have the information just say so.'' @ nl @
   ''       '' @ nl @
   ''       Do not mention the CONTEXT used in your answer.'' @ nl @
   ''       Do not mention the CHAT HISTORY used in your answer.'' @ nl @
   ''       '' @ nl @
   ''       <chat_history>'' @ nl @
   ''       '' @ chat_history @ nl @
   ''       </chat_history>'' @ nl @
   ''       <context>          '' @ nl @
   ''       '' @ prompt_context @ nl @
   ''       </context>'' @ nl @
   ''       <question>  '' @ nl @
   ''       '' @ myquestion @ nl @
   ''       </question>'' @ nl @
   ''       Answer:'' @ nl @
   ''       ''"

definition create_prompt :: "string \<Rightarrow> string py" where
  "create_prompt myquestion =
     py_bind (py_get use_chat_history) (\<lambda>use.
     py_bind
       (if use then
          py_bind get_chat_history (\<lambda>chat_history.
            if chat_history \<noteq> [] then
              py_bind (summarize_question_with_history chat_history myquestion) (\<lambda>question_summary.
              py_bind (get_similar_chunks question_summary) (\<lambda>prompt_context.
              py_return (prompt_context, HistList chat_history)))
            else
              py_bind (get_similar_chunks myquestion) (\<lambda>prompt_context.
              py_return (prompt_context, HistList chat_history)))
        else
          py_bind (get_similar_chunks myquestion) (\<lambda>prompt_context.
          py_return (prompt_context, HistStr [])))
       (\<lambda>(prompt_context, chat_history).
     py_bind (py_get debug) (\<lambda>dbg.
     py_bind (py_get repr_str) (\<lambda>repr.
     py_bind (if dbg
              then py_bind (st_emit (St_write (''Prompt Context: '' @ prompt_context))) (\<lambda>_.
                   st_emit (St_write (''Chat History: '' @ format_hist repr chat_history)))
              else py_return ()) (\<lambda>_.
     py_return (prompt_template (format_hist repr chat_history) prompt_context myquestion))))))"

subsection \<open>\<^verbatim>\<open>complete\<close> (lines 279-301)\<close>

definition complete :: "string \<Rightarrow> dataframe option py" where
  "complete myquestion =
     py_bind (st_emit (St_write (''Creating prompt for question: '' @ myquestion))) (\<lambda>_.
     py_try
       (py_bind (create_prompt myquestion) (\<lambda>prompt0.
        let prompt = str_replace (CHR 0x27) (squote @ squote) prompt0 in
        py_bind (py_get model_name) (\<lambda>model.
        let cmd = cortex_complete_cmd model prompt in
        py_bind (cursor_execute cmd) (\<lambda>rs.
        let df_response = rows rs in
        if df_response \<noteq> [] \<and> length df_response > 0
        then py_bind (py_lift (pd_DataFrame df_response (description rs))) (\<lambda>df.
             py_return (Some df))
        else py_bind (st_emit (St_error ''No response received from Snowflake.'')) (\<lambda>_.
             py_return None)))))
       (\<lambda>e. py_bind (st_emit (St_error_exn ''Error in completing the request: '' e)) (\<lambda>_.
            py_return None)))"

subsection \<open>\<^verbatim>\<open>main\<close> (lines 41-94)\<close>

text \<open>
  Lines 49-54. The call site passes one argument to \<^verbatim>\<open>upload_to_snowflake\<close>, whose
  second parameter \<^verbatim>\<open>cursor\<close> is required.
\<close>

definition main_upload :: "uploaded_file option \<Rightarrow> unit py" where
  "main_upload upl =
     (case upl of
        None \<Rightarrow> py_return ()
      | Some uploaded_file \<Rightarrow>
          py_try
            (py_bind (py_call2 upload_to_snowflake (Some uploaded_file) None) (\<lambda>_.
             st_emit (St_success ''File uploaded successfully!'')))
            (\<lambda>e. st_emit (St_error_exn ''Error uploading file: '' e)))"

text \<open>Lines 58-67; \<^verbatim>\<open>[doc[0] for doc in docs_available]\<close> is \<open>first_cells\<close>.\<close>

fun first_cells :: "cell list list \<Rightarrow> exn + cell list" where
  "first_cells [] = Inr []"
| "first_cells (doc # docs) =
     (case list_getitem doc 0 of
        Inl e \<Rightarrow> Inl e
      | Inr v \<Rightarrow> (case first_cells docs of Inl e \<Rightarrow> Inl e | Inr vs \<Rightarrow> Inr (v # vs)))"

definition main_list_docs :: "unit py" where
  "main_list_docs =
     py_bind (py_get cursor) (\<lambda>c.
       if c \<noteq> None then
         py_try
           (py_bind (cursor_execute ''LIST @docs'') (\<lambda>rs.
            let docs_available = rows rs in
            py_bind (py_lift (first_cells docs_available)) (\<lambda>list_docs.
            st_emit (St_dataframe list_docs))))
           (\<lambda>e. st_emit (St_error_exn ''Error fetching documents: '' e))
       else st_emit (St_error ''Cursor is not defined. Unable to fetch documents.''))"

text \<open>Lines 72-74.\<close>

fun render_messages :: "message list \<Rightarrow> unit py" where
  "render_messages [] w = (Inr (), w)"
| "render_messages (m # ms) w =
     render_messages ms (w\<lparr>ui := ui w @ [St_chat_message (role m), St_markdown (content m)]\<rparr>)"

definition main_render :: "unit py" where
  "main_render w = render_messages (case messages w of None \<Rightarrow> [] | Some ms \<Rightarrow> ms) w"

text \<open>
  Lines 76-94. \<open>None\<close> for the local \<^verbatim>\<open>res_text\<close> means that the variable is not bound:
  only the branch of line 88 assigns it, and line 94 reads it.
\<close>

definition main_chat :: "string option \<Rightarrow> unit py" where
  "main_chat chat_in =
     (case chat_in of
        None \<Rightarrow> py_return ()
      | Some question0 \<Rightarrow>
          if question0 = [] then py_return ()
          else
            py_bind (session_append \<lparr>role = ''user'', content = question0\<rparr>) (\<lambda>_.
            py_bind (st_emit (St_chat_message ''user'')) (\<lambda>_.
            py_bind (st_emit (St_markdown question0)) (\<lambda>_.
            py_bind (st_emit (St_chat_message ''assistant'')) (\<lambda>_.
            let question = str_replace (CHR 0x27) [] question0;
                no_response =
                  py_bind (st_emit (St_error ''No response received from Snowflake.'')) (\<lambda>_.
                  py_bind (st_emit (St_markdown ''No response available.'')) (\<lambda>_.
                  py_return None))
            in
            py_bind (py_get model_name) (\<lambda>model.
            py_bind (st_emit (St_spinner (model @ '' thinking...''))) (\<lambda>_.
            py_bind (complete question) (\<lambda>response.
            py_bind
              (case response of
                 None \<Rightarrow> no_response
               | Some df \<Rightarrow>
                   if \<not> df_empty df then
                     py_bind (py_lift (df_iloc0_getitem df ''RESPONSE'')) (\<lambda>v.
                     py_bind (py_lift (cell_replace (CHR 0x27) [] v)) (\<lambda>res_text.
                     py_bind (st_emit (St_markdown res_text)) (\<lambda>_.
                     py_return (Some res_text))))
                   else no_response)
              (\<lambda>res_text.
                 case res_text of
                   None \<Rightarrow> py_raise (UnboundLocalError ''res_text'')
                 | Some t \<Rightarrow> session_append \<lparr>role = ''assistant'', content = t\<rparr>)))))))))"

definition main :: "inputs \<Rightarrow> unit py" where
  "main inp =
     py_bind (st_emit (St_title '':speech_balloon: Chat Document Assistant with Snowflake Cortex'')) (\<lambda>_.
     py_bind (st_emit (St_write ''### Snowflake Connection Details'')) (\<lambda>_.
     py_bind display_snowflake_details (\<lambda>_.
     py_bind (st_emit (St_write ''### Upload a Document'')) (\<lambda>_.
     py_bind (main_upload (uploaded inp)) (\<lambda>_.
     py_bind (st_emit (St_write ''### List of Documents'')) (\<lambda>_.
     py_bind (st_emit (St_write
       ''This is the list of documents you already have and that will be used to answer your questions:'')) (\<lambda>_.
     py_bind main_list_docs (\<lambda>_.
     py_bind (config_options inp) (\<lambda>_.
     py_bind init_messages (\<lambda>_.
     py_bind main_render (\<lambda>_.
     main_chat (chat_input inp))))))))))))"

text \<open>
  One interaction of the user: Streamlit clears the page and runs the script from the top.
  An exception that leaves \<^verbatim>\<open>main\<close> is shown on the page; the session state keeps what
  the run had written to it.
\<close>

definition rerun :: "inputs \<Rightarrow> world \<Rightarrow> (exn + unit) \<times> world" where
  "rerun inp w = main inp (w\<lparr>ui := []\<rparr>)"

section \<open>Sessions and services used as concrete inputs\<close>

text \<open>A fresh session: nothing executed, no \<^verbatim>\<open>messages\<close> key yet, an empty scratch directory.\<close>

definition initial_world :: "cursor_t option \<Rightarrow> world" where
  "initial_world c =
     \<lparr>cursor = c, executed = [], messages = None, model_name = [],
      use_chat_history = False, debug = False, clear_conversation = False, ui = [],
      files = Map.empty, tmp_create = Inr ''/tmp/tmpk3v9x2'', tmp_write = None,
      repr_str = (\<lambda>s. squote @ s @ squote)\<rparr>"

text \<open>The user types a question; history and debug are ticked, as by default.\<close>

definition ask :: "string \<Rightarrow> inputs" where
  "ask q =
     \<lparr>uploaded = None, chat_input = Some q, sel_model_name = ''mistral-7b'',
      chk_use_chat_history = True, chk_debug = True, btn_clear_conversation = False\<rparr>"

text \<open>A service on which every statement fails.\<close>

definition failing_cursor :: cursor_t where
  "failing_cursor hist cmd = Inl (DatabaseError ''service unavailable'')"

text \<open>A service that answers every statement with zero rows.\<close>

definition empty_cursor :: cursor_t where
  "empty_cursor hist cmd = Inr \<lparr>description = [''RESPONSE''], rows = []\<rparr>"

text \<open>A service that always answers with one row of generated text.\<close>

definition answering_cursor :: cursor_t where
  "answering_cursor hist cmd = Inr \<lparr>description = [''RESPONSE''], rows = [[PyStr ''It's 42.'']]\<rparr>"

text \<open>A service that is down for the first four statements and answers afterwards.\<close>

definition flaky_cursor :: cursor_t where
  "flaky_cursor hist cmd =
     (if length hist < 4 then Inl (DatabaseError ''service unavailable'')
      else Inr \<lparr>description = [''RESPONSE''], rows = [[PyStr ''ok'']]\<rparr>)"

text \<open>An upload, and a disk on which writing to the scratch file fails.\<close>

definition report_pdf :: uploaded_file where
  "report_pdf = \<lparr>file_name = ''report.pdf'', file_bytes = ''%PDF-1.7''\<rparr>"

definition disk_full_world :: world where
  "disk_full_world = (initial_world None)\<lparr>tmp_write := Some (OSError ''No space left on device'')\<rparr>"

text \<open>A conversation of three messages, the last one pending.\<close>

definition three_messages :: "message list" where
  "three_messages =
     [\<lparr>role = ''user'', content = ''What is X?''\<rparr>,
      \<lparr>role = ''assistant'', content = ''X is a product.''\<rparr>,
      \<lparr>role = ''user'', content = ''And Y?''\<rparr>]"

definition three_messages_world :: world where
  "three_messages_world = (initial_world None)\<lparr>messages := Some three_messages\<rparr>"

text \<open>The same conversation on a live cursor, with the history switched on.\<close>

definition history_world :: world where
  "history_world =
     (initial_world (Some answering_cursor))\<lparr>messages := Some three_messages, use_chat_history := True\<rparr>"

subsection \<open>The shape of a conversation\<close>

text \<open>
  User and assistant messages alternate, starting with the user; the last message may be a
  user message that has no answer yet.
\<close>

fun alternating :: "message list \<Rightarrow> bool" where
  "alternating [] = True"
| "alternating [m] = (role m = ''user'')"
| "alternating (m # a # ms) = (role m = ''user'' \<and> role a = ''assistant'' \<and> alternating ms)"

text \<open>A session after \<^verbatim>\<open>init_messages\<close> has run once: the conversation exists and is empty.\<close>

definition started_world :: "cursor_t option \<Rightarrow> world" where
  "started_world c = (initial_world c)\<lparr>messages := Some []\<rparr>"

subsection \<open>Answers of the service to the statements of the program\<close>

text \<open>
  The answer to the ranking statement of lines 153-164, which selects \<^verbatim>\<open>chunk\<close> and
  \<^verbatim>\<open>relative_path\<close>: one row of two texts per chunk.
\<close>

definition chunk_rows :: "(string \<times> string) list \<Rightarrow> result_set" where
  "chunk_rows chunks =
     \<lparr>description = [''CHUNK'', ''RELATIVE_PATH''],
      rows = map (\<lambda>(chunk, relative_path). [PyStr chunk, PyStr relative_path]) chunks\<rparr>"

text \<open>
  A service that finds no chunk for the ranking statement (the only statement of the program
  that starts with a newline) and answers every other statement with one row of text.
\<close>

definition retrieval_empty_cursor :: cursor_t where
  "retrieval_empty_cursor hist cmd =
     (if take 1 cmd = nl then Inr (chunk_rows [])
      else Inr \<lparr>description = [''RESPONSE''], rows = [[PyStr ''I do not know.'']]\<rparr>)"

definition quoted_chunks_cursor :: cursor_t where
  "quoted_chunks_cursor hist cmd = Inr (chunk_rows [(''It's '', ''a.pdf''), (''here.'', ''b.pdf'')])"


subsection \<open>Notions used in the statements\<close>

text \<open>What the \<^verbatim>\<open>replace\<close> of line 170 makes of one chunk text.\<close>

definition blank_quote :: "string \<Rightarrow> string" where
  "blank_quote chunk = (if chunk = squote then [] else chunk)"

text \<open>The statement that \<^verbatim>\<open>summarize_question_with_history\<close> builds in lines 193-211.\<close>

definition summarize_cmd :: "string \<Rightarrow> string list \<Rightarrow> string \<Rightarrow> string" where
  "summarize_cmd model chat_history question =
     cortex_complete_cmd model
       (summarize_prompt (str_replace (CHR 0x27) (squote @ squote) (str_join '' '' chat_history))
          (str_replace (CHR 0x27) (squote @ squote) question))"

text \<open>The instructions of the prompt: lines 252-263, up to the first tagged segment.\<close>

definition prompt_instructions :: string where
  "prompt_instructions =
   nl @
   ''       You are an expert chat assistant that extracts information from the CONTEXT provided'' @ nl @
   ''       between <context> and </context> tags.'' @ nl @
   ''       You offer a chat experience considering the information included in the CHAT HISTORY'' @ nl @
   ''       provided between <chat_history> and </chat_history> tags.'' @ nl @
   ''       When answering the question contained between <question> and </question> tags,'' @ nl @
   ''       be concise and do not hallucinate. '' @ nl @
   ''       If you don'' @ [CHR 0xC3, CHR 0xA2] @ [CHR 0xE2, CHR 0x82, CHR 0xAC] @ [CHR 0xE2, CHR 0x84, CHR 0xA2] @ ''t have the information just say so.'' @ nl @
   ''       '' @ nl @
   ''       Do not mention the CONTEXT used in your answer.'' @ nl @
   ''       Do not mention the CHAT HISTORY used in your answer.'' @ nl @
   ''       '' @ nl"

text \<open>
  \<open>only_log w stmts w'\<close>: from \<open>w\<close> to \<open>w'\<close> the statements \<open>stmts\<close> were executed and
  something may have been rendered; everything else is as it was.
\<close>

definition only_log :: "world \<Rightarrow> string list \<Rightarrow> world \<Rightarrow> bool" where
  "only_log w stmts w' =
     (executed w' = executed w @ stmts \<and> cursor w' = cursor w \<and> messages w' = messages w
      \<and> model_name w' = model_name w \<and> use_chat_history w' = use_chat_history w
      \<and> debug w' = debug w \<and> clear_conversation w' = clear_conversation w
      \<and> files w' = files w \<and> tmp_create w' = tmp_create w \<and> tmp_write w' = tmp_write w
      \<and> repr_str w' = repr_str w)"

text \<open>
  The statements that \<^verbatim>\<open>create_prompt\<close> executes for the question \<open>q\<close> on a live cursor:
  the ranking statement for \<open>q\<close>, or the summarisation statement followed by the ranking
  statement for a summary without single quotes.
\<close>

definition turn_stmts :: "string \<Rightarrow> string \<Rightarrow> string list \<Rightarrow> bool" where
  "turn_stmts m q stmts =
     (stmts = [similar_chunks_cmd q]
      \<or> (\<exists>p s. stmts = [cortex_complete_cmd m p, similar_chunks_cmd s] \<and> CHR 0x27 \<notin> set s))"

section \<open>Verified properties\<close>

subsection \<open>The chat turn without a response\<close>

text \<open>
  Claim C1 says that after the completion step, also when the service failed or returned
  nothing, an answer or an error surrogate is appended to the conversation and the turn
  ends without an unhandled exception. On a service whose statements all fail, and on one
  that returns zero rows, the run of the script ends with the unhandled
  \<open>UnboundLocalError\<close> of line 94, and the conversation holds only the user message.
\<close>

theorem main_no_response_raises:
  "fst (rerun (ask ''hi'') (initial_world (Some failing_cursor))) = Inl (UnboundLocalError ''res_text'')
   \<and> messages (snd (rerun (ask ''hi'') (initial_world (Some failing_cursor)))) =
       Some [\<lparr>role = ''user'', content = ''hi''\<rparr>]
   \<and> fst (rerun (ask ''hi'') (initial_world (Some empty_cursor))) = Inl (UnboundLocalError ''res_text'')
   \<and> messages (snd (rerun (ask ''hi'') (initial_world (Some empty_cursor)))) =
       Some [\<lparr>role = ''user'', content = ''hi''\<rparr>]"
  by code_simp

text \<open>
  Claim C9 says that user and assistant messages alternate in every reachable conversation,
  also after a turn whose completion returned nothing. Two questions asked from a fresh
  session, the service being down during the first, leave two user messages in a row.
\<close>

theorem rerun_breaks_alternation:
  "map role (the (messages (snd (rerun (ask ''two'')
      (snd (rerun (ask ''one'') (initial_world (Some flaky_cursor)))))))) =
     [''user'', ''user'', ''assistant'']
   \<and> \<not> alternating (the (messages (snd (rerun (ask ''two'')
      (snd (rerun (ask ''one'') (initial_world (Some flaky_cursor))))))))"
  by code_simp

subsection \<open>Uploading\<close>

text \<open>
  Claim C2: for every uploaded file, the call that \<^verbatim>\<open>main\<close> makes to
  \<^verbatim>\<open>upload_to_snowflake\<close> raises TypeError, because the required parameter \<^verbatim>\<open>cursor\<close>
  is not passed. Nothing is executed, no file is touched, no success is reported: the only
  effect of lines 49-54 is the error message of line 54.
\<close>

theorem main_upload_type_error:
  "py_call2 upload_to_snowflake (Some f) None w = (Inl TypeError, w)
   \<and> main_upload (Some f) w =
       (Inr (), w\<lparr>ui := ui w @ [St_error_exn ''Error uploading file: '' TypeError]\<rparr>)"
  by (simp add: main_upload_def py_call2_def py_try_def py_bind_def py_raise_def st_emit_def)

text \<open>
  Claim C4 says that the scratch file is gone after \<^verbatim>\<open>upload_to_snowflake\<close>, on every
  failure path, also when the failure comes before \<^verbatim>\<open>temp_file_path\<close> is bound. When
  writing to the scratch file fails, the \<^verbatim>\<open>finally\<close> block reads the unbound variable:
  the call ends with \<open>UnboundLocalError\<close>, no statement was executed, and the scratch
  file is still on disk.
\<close>

theorem upload_write_failure_leaves_file:
  "fst (upload_to_snowflake report_pdf (Some answering_cursor) disk_full_world) =
     Inl (UnboundLocalError ''temp_file_path'')
   \<and> os_path_exists ''/tmp/tmpk3v9x2'' (snd (upload_to_snowflake report_pdf (Some answering_cursor) disk_full_world))
   \<and> \<not> os_path_exists ''/tmp/tmpk3v9x2'' disk_full_world
   \<and> executed (snd (upload_to_snowflake report_pdf (Some answering_cursor) disk_full_world)) = []"
  by code_simp

text \<open>
  On the paths that do bind \<^verbatim>\<open>temp_file_path\<close> the scratch file is gone afterwards,
  whether the stage upload succeeded or failed.
\<close>

lemma upload_removes_bound_file:
  assumes "tmp_create w = Inr p" and "tmp_write w = None"
  shows "\<not> os_path_exists p (snd (upload_to_snowflake f (Some c) w))"
  using assms
  by (auto simp add: upload_to_snowflake_def upload_try_def py_bind_def execute_def os_remove_def
      os_path_exists_def st_emit_def Let_def split: sum.splits prod.splits option.splits)

subsection \<open>The sliding window\<close>

lemma chat_history_loop_upto:
  "0 \<le> a \<Longrightarrow> b < int (length msgs) \<Longrightarrow>
   chat_history_loop msgs [a..b] acc =
     Inr (acc @ map content (take (nat (b + 1 - a)) (drop (nat a) msgs)))"
proof (induction "nat (b + 1 - a)" arbitrary: a acc)
  case 0
  then have "b < a" by simp
  then show ?case by simp
next
  case (Suc n)
  then have le: "a \<le> b" by linarith
  have range: "[a..b] = a # [a + 1..b]"
    using le by (simp add: upto_rec1)
  have inb: "nat a < length msgs"
    using Suc.prems le by linarith
  have item: "list_getitem msgs a = Inr (msgs ! nat a)"
    using Suc.prems le by (simp add: list_getitem_def)
  have n: "n = nat (b + 1 - (a + 1))"
    using Suc.hyps(2) by linarith
  have step: "chat_history_loop msgs [a + 1..b] (acc @ [content (msgs ! nat a)]) =
      Inr ((acc @ [content (msgs ! nat a)]) @
        map content (take (nat (b + 1 - (a + 1))) (drop (nat (a + 1)) msgs)))"
    using Suc.hyps(1)[OF n] Suc.prems by simp
  have suc: "nat (a + 1) = Suc (nat a)"
    using Suc.prems by linarith
  have tk: "take (nat (b + 1 - a)) (drop (nat a) msgs) =
      msgs ! nat a # take (nat (b + 1 - (a + 1))) (drop (Suc (nat a)) msgs)"
    using Suc.hyps(2) n inb by (metis Cons_nth_drop_Suc take_Suc_Cons)
  show ?case
    by (simp add: range item step suc tk)
qed

text \<open>
  Claim C3: on a conversation of length \<open>L \<ge> 1\<close>, \<^verbatim>\<open>get_chat_history\<close> returns at most
  \<open>min (L - 1) 7\<close> entries; they are the contents of consecutive messages in insertion
  order, from index \<open>L - 7\<close> (or 0) up to index \<open>L - 2\<close>, so the most recent message is
  never among them. The session is left as it was.
\<close>

theorem get_chat_history_window:
  assumes "messages w = Some msgs" and "1 \<le> length msgs"
  shows "\<exists>h start. get_chat_history w = (Inr h, w)
           \<and> length h \<le> min (length msgs - 1) 7
           \<and> start = length msgs - 7
           \<and> start + length h = length msgs - 1
           \<and> h = map content (take (length h) (drop start msgs))"
proof -
  let ?L = "length msgs"
  let ?start = "max 0 (int ?L - slide_window)"
  have s: "nat ?start = ?L - 7" "0 \<le> ?start"
    by (simp_all add: slide_window_def)
  have "chat_history_loop msgs [?start..int ?L - 1 - 1] [] =
      Inr ([] @ map content (take (nat (int ?L - 1 - 1 + 1 - ?start)) (drop (nat ?start) msgs)))"
    by (rule chat_history_loop_upto) (use assms in simp_all)
  moreover have "nat (int ?L - 1 - 1 + 1 - ?start) = ?L - 1 - (?L - 7)"
    using assms(2) by (simp add: slide_window_def)
  ultimately have run: "get_chat_history w =
      (Inr (map content (take (?L - 1 - (?L - 7)) (drop (?L - 7) msgs))), w)"
    using assms(1) s
    by (simp add: get_chat_history_def py_bind_def session_messages_def py_lift_def py_range_def)
  let ?h = "map content (take (?L - 1 - (?L - 7)) (drop (?L - 7) msgs))"
  have len: "length ?h = ?L - 1 - (?L - 7)"
    using assms(2) by simp
  show ?thesis
    apply (rule exI[of _ ?h], rule exI[of _ "?L - 7"])
    using run len assms(2) by auto
qed

theorem get_chat_history_window_witness:
  "messages three_messages_world = Some three_messages \<and> 1 \<le> length three_messages
   \<and> (\<exists>h start. get_chat_history three_messages_world = (Inr h, three_messages_world)
         \<and> length h \<le> min (length three_messages - 1) 7
         \<and> start = length three_messages - 7
         \<and> start + length h = length three_messages - 1
         \<and> h = map content (take (length h) (drop start three_messages)))"
proof -
  have m: "messages three_messages_world = Some three_messages"
    by (simp add: three_messages_world_def)
  have l: "1 \<le> length three_messages"
    by (simp add: three_messages_def)
  show ?thesis
    using m l get_chat_history_window [OF m l] by blast
qed

lemma get_chat_history_total:
  assumes "messages w = Some msgs"
  shows "\<exists>h. get_chat_history w = (Inr h, w)"
proof -
  have "chat_history_loop msgs [max 0 (int (length msgs) - slide_window)..int (length msgs) - 1 - 1] [] =
      Inr ([] @ map content (take (nat (int (length msgs) - 1 - 1 + 1 - max 0 (int (length msgs) - slide_window)))
        (drop (nat (max 0 (int (length msgs) - slide_window))) msgs)))"
    by (rule chat_history_loop_upto) simp_all
  then show ?thesis
    using assms
    by (simp add: get_chat_history_def py_bind_def session_messages_def py_lift_def py_range_def)
qed

subsection \<open>What each stage executes and leaves unchanged\<close>

lemma only_log_trans: "only_log w s1 w1 \<Longrightarrow> only_log w1 s2 w2 \<Longrightarrow> only_log w (s1 @ s2) w2"
  unfolding only_log_def by auto

lemma str_replace_no_old: "old \<notin> set new \<Longrightarrow> old \<notin> set (str_replace old new s)"
  by (induction s) (auto simp: str_replace_def)

lemma cell_replace_no_old:
  "cell_replace old new v = Inr s \<Longrightarrow> old \<notin> set new \<Longrightarrow> old \<notin> set s"
  by (cases v) (auto simp: str_replace_no_old)

lemma get_similar_chunks_frame:
  "\<exists>s w'. get_similar_chunks a w = (Inr s, w')
      \<and> only_log w (if cursor w = None then [] else [similar_chunks_cmd a]) w'"
  unfolding only_log_def
  by (auto simp: get_similar_chunks_def py_try_def py_bind_def cursor_execute_def execute_def
        py_lift_def py_return_def st_emit_def Let_def
      split: sum.splits option.splits prod.splits)

lemma get_similar_chunks_frameD:
  "get_similar_chunks a w = (r, w') \<Longrightarrow>
     (\<exists>s. r = Inr s) \<and> only_log w (if cursor w = None then [] else [similar_chunks_cmd a]) w'"
  using get_similar_chunks_frame[of a w] by auto

lemma summarize_frame:
  "\<exists>s w'. summarize_question_with_history h q w = (Inr s, w')
      \<and> CHR 0x27 \<notin> set s
      \<and> only_log w (if cursor w = None then []
           else [cortex_complete_cmd (model_name w)
                  (summarize_prompt (str_replace (CHR 0x27) (squote @ squote) (str_join '' '' h))
                     (str_replace (CHR 0x27) (squote @ squote) q))]) w'"
  unfolding only_log_def
  by (auto simp: summarize_question_with_history_def py_try_def py_bind_def cursor_execute_def
        execute_def py_lift_def py_return_def py_get_def st_emit_def Let_def
      dest: cell_replace_no_old
      split: sum.splits option.splits prod.splits if_splits)

lemma summarize_frameD:
  "summarize_question_with_history h q w = (r, w') \<Longrightarrow>
     (\<exists>s. r = Inr s \<and> CHR 0x27 \<notin> set s)
      \<and> (\<exists>p. only_log w (if cursor w = None then [] else [cortex_complete_cmd (model_name w) p]) w')"
  using summarize_frame[of h q w] by auto

lemma create_prompt_frame:
  assumes "messages w = Some msgs"
  shows "\<exists>hist ctx stmts w'. create_prompt q w = (Inr (prompt_template hist ctx q), w')
      \<and> only_log w stmts w'
      \<and> (if cursor w = None then stmts = [] else turn_stmts (model_name w) q stmts)
      \<and> (hist = [] \<or> (\<exists>h. get_chat_history w = (Inr h, w) \<and> hist = str_list (repr_str w) h))
      \<and> (\<exists>arg w1 w2. cursor w1 = cursor w \<and> get_similar_chunks arg w1 = (Inr ctx, w2)
             \<and> (cursor w \<noteq> None \<longrightarrow> stmts \<noteq> [] \<and> last stmts = similar_chunks_cmd arg))"
proof -
  obtain h where h: "get_chat_history w = (Inr h, w)"
    using get_chat_history_total[OF assms] by blast
  show ?thesis
  proof (cases "use_chat_history w \<and> h \<noteq> []")
    case True
    obtain r1 w1 where s: "summarize_question_with_history h q w = (r1, w1)"
      by (cases "summarize_question_with_history h q w")
    from summarize_frameD[OF s] obtain s1 p where
      r1: "r1 = Inr s1" "CHR 0x27 \<notin> set s1"
      and l1: "only_log w (if cursor w = None then [] else [cortex_complete_cmd (model_name w) p]) w1"
      by blast
    obtain r2 w2 where g: "get_similar_chunks s1 w1 = (r2, w2)"
      by (cases "get_similar_chunks s1 w1")
    from get_similar_chunks_frameD[OF g] obtain ctx where
      r2: "r2 = Inr ctx"
      and l2: "only_log w1 (if cursor w1 = None then [] else [similar_chunks_cmd s1]) w2"
      by blast
    have c1: "cursor w1 = cursor w" using l1 by (simp add: only_log_def)
    have l12: "only_log w (if cursor w = None then []
        else [cortex_complete_cmd (model_name w) p, similar_chunks_cmd s1]) w2"
      using only_log_trans[OF l1 l2] c1 by (simp split: if_splits)
    let ?hist = "format_hist (repr_str w2) (HistList h)"
    let ?w3 = "if debug w2 then w2\<lparr>ui := ui w2 @ [St_write (''Prompt Context: '' @ ctx),
        St_write (''Chat History: '' @ ?hist)]\<rparr> else w2"
    have run: "create_prompt q w = (Inr (prompt_template ?hist ctx q), ?w3)"
      using True h s r1 g r2
      by (simp add: create_prompt_def py_bind_def py_get_def py_return_def st_emit_def)
    have l3: "only_log w (if cursor w = None then []
        else [cortex_complete_cmd (model_name w) p, similar_chunks_cmd s1]) ?w3"
      using l12 by (simp add: only_log_def)
    let ?stmts = "if cursor w = None then []
        else [cortex_complete_cmd (model_name w) p, similar_chunks_cmd s1]"
    have st: "if cursor w = None then ?stmts = [] else turn_stmts (model_name w) q ?stmts"
      using r1(2) by (auto simp: turn_stmts_def)
    have rw: "repr_str w2 = repr_str w"
      using l12 by (simp add: only_log_def)
    have hi: "?hist = [] \<or> (\<exists>h. get_chat_history w = (Inr h, w) \<and> ?hist = str_list (repr_str w) h)"
      using h rw by simp
    have sim: "\<exists>arg w1 w2. cursor w1 = cursor w \<and> get_similar_chunks arg w1 = (Inr ctx, w2)
        \<and> (cursor w \<noteq> None \<longrightarrow> ?stmts \<noteq> [] \<and> last ?stmts = similar_chunks_cmd arg)"
      using c1 g r2 by (intro exI[of _ s1] exI[of _ w1] exI[of _ w2]) auto
    show ?thesis
      using run l3 st hi sim by blast
  next
    case False
    obtain r2 w2 where g: "get_similar_chunks q w = (r2, w2)"
      by (cases "get_similar_chunks q w")
    from get_similar_chunks_frameD[OF g] obtain ctx where
      r2: "r2 = Inr ctx"
      and l2: "only_log w (if cursor w = None then [] else [similar_chunks_cmd q]) w2"
      by blast
    let ?h = "if use_chat_history w then HistList h else HistStr []"
    let ?hist = "format_hist (repr_str w2) ?h"
    let ?w3 = "if debug w2 then w2\<lparr>ui := ui w2 @ [St_write (''Prompt Context: '' @ ctx),
        St_write (''Chat History: '' @ ?hist)]\<rparr> else w2"
    have run: "create_prompt q w = (Inr (prompt_template ?hist ctx q), ?w3)"
      using False h g r2
      by (auto simp add: create_prompt_def py_bind_def py_get_def py_return_def st_emit_def)
    have l3: "only_log w (if cursor w = None then [] else [similar_chunks_cmd q]) ?w3"
      using l2 by (simp add: only_log_def)
    let ?stmts = "if cursor w = None then [] else [similar_chunks_cmd q]"
    have st: "if cursor w = None then ?stmts = [] else turn_stmts (model_name w) q ?stmts"
      by (auto simp: turn_stmts_def)
    have rw: "repr_str w2 = repr_str w"
      using l2 by (simp add: only_log_def)
    have hi: "?hist = [] \<or> (\<exists>h. get_chat_history w = (Inr h, w) \<and> ?hist = str_list (repr_str w) h)"
      using h rw by simp
    have sim: "\<exists>arg w1 w2. cursor w1 = cursor w \<and> get_similar_chunks arg w1 = (Inr ctx, w2)
        \<and> (cursor w \<noteq> None \<longrightarrow> ?stmts \<noteq> [] \<and> last ?stmts = similar_chunks_cmd arg)"
      using g r2 by (intro exI[of _ q] exI[of _ w] exI[of _ w2]) auto
    show ?thesis
      using run l3 st hi sim by blast
  qed
qed

lemma complete_frame:
  assumes "messages w = Some msgs"
  shows "\<exists>r stmts w'. complete q w = (Inr r, w')
      \<and> only_log w stmts w'
      \<and> (if cursor w = None then stmts = []
          else \<exists>pre p. stmts = pre @ [cortex_complete_cmd (model_name w) p]
                 \<and> turn_stmts (model_name w) q pre)"
proof -
  let ?w0 = "w\<lparr>ui := ui w @ [St_write (''Creating prompt for question: '' @ q)]\<rparr>"
  have m0: "messages ?w0 = Some msgs" using assms by simp
  obtain hist ctx stmts w1 where
    cp: "create_prompt q ?w0 = (Inr (prompt_template hist ctx q), w1)"
    and l1: "only_log ?w0 stmts w1"
    and st: "if cursor ?w0 = None then stmts = [] else turn_stmts (model_name ?w0) q stmts"
    using create_prompt_frame[OF m0, of q] by blast
  have l1': "only_log w stmts w1"
    using l1 by (simp add: only_log_def)
  have f1: "cursor w1 = cursor w" "model_name w1 = model_name w" "executed w1 = executed w @ stmts"
    using l1' by (simp_all add: only_log_def)
  show ?thesis
  proof (cases "cursor w")
    case None
    then have "complete q w = (Inr None, w1\<lparr>ui := ui w1 @
        [St_error_exn ''Error in completing the request: '' AttributeError]\<rparr>)"
      using cp f1
      by (simp add: complete_def py_bind_def py_try_def py_get_def py_return_def st_emit_def
          cursor_execute_def Let_def)
    moreover have "only_log w [] (w1\<lparr>ui := ui w1 @
        [St_error_exn ''Error in completing the request: '' AttributeError]\<rparr>)"
      using l1' st None by (simp add: only_log_def)
    ultimately show ?thesis using None by auto
  next
    case (Some c)
    let ?cmd = "cortex_complete_cmd (model_name w)
        (str_replace (CHR 0x27) (squote @ squote) (prompt_template hist ctx q))"
    let ?w2 = "w1\<lparr>executed := executed w1 @ [?cmd]\<rparr>"
    have l2: "only_log w (stmts @ [?cmd]) ?w2"
      using l1' by (simp add: only_log_def)
    have "\<exists>r w'. complete q w = (Inr r, w') \<and> only_log ?w2 [] w'"
      using cp f1 Some
      by (auto simp add: complete_def py_bind_def py_try_def py_get_def py_return_def st_emit_def
          cursor_execute_def execute_def py_lift_def Let_def only_log_def
          split: sum.splits)
    then obtain r w' where r: "complete q w = (Inr r, w')" and l3: "only_log ?w2 [] w'"
      by blast
    have "only_log w (stmts @ [?cmd]) w'"
      using only_log_trans[OF l2 l3] by simp
    then show ?thesis
      using r st Some by auto
  qed
qed

lemma complete_frameD:
  "complete q w = (r, w') \<Longrightarrow> messages w = Some msgs \<Longrightarrow>
     (\<exists>x. r = Inr x) \<and>
     (\<exists>stmts. only_log w stmts w'
        \<and> (if cursor w = None then stmts = []
            else \<exists>pre p. stmts = pre @ [cortex_complete_cmd (model_name w) p]
                   \<and> turn_stmts (model_name w) q pre))"
  using complete_frame[of w msgs q] by auto

subsection \<open>The retrieval query\<close>

lemma cells_strs_texts: "cells_strs (map PyStr ts) = Inr ts"
  by (induction ts) simp_all

lemma str_join_empty: "str_join [] ts = concat ts"
  by (induction "[] :: string" ts rule: str_join.induct) simp_all

lemma series_replace_texts:
  "series_replace (PyStr squote) (PyStr []) (map PyStr ts) = map PyStr (map blank_quote ts)"
  by (simp add: series_replace_def blank_quote_def)

lemma join_replaced_texts:
  "str_join_cells [] (series_replace (PyStr squote) (PyStr []) (map PyStr ts)) =
     Inr (concat (map blank_quote ts))"
  unfolding series_replace_texts str_join_cells_def cells_strs_texts
  by (simp add: str_join_empty)

lemma get_similar_chunks_texts:
  assumes "cursor w = Some c" and "c (executed w) (similar_chunks_cmd q) = Inr rs"
    and "list_all (\<lambda>r. length r = length (description rs)) (rows rs)"
    and "col_index (description rs) ''CHUNK'' = Some i"
    and "map (\<lambda>r. r ! i) (rows rs) = map PyStr texts"
  shows "get_similar_chunks q w =
     (Inr (concat (map blank_quote texts)), w\<lparr>executed := executed w @ [similar_chunks_cmd q]\<rparr>)"
  using assms
  by (simp add: get_similar_chunks_def py_try_def py_bind_def cursor_execute_def execute_def
      py_lift_def pd_DataFrame_def df_getitem_def join_replaced_texts)

lemma get_similar_chunks_chunk_rows:
  assumes "cursor w = Some c" and "c (executed w) (similar_chunks_cmd q) = Inr (chunk_rows chunks)"
  shows "get_similar_chunks q w =
     (Inr (concat (map blank_quote (map fst chunks))), w\<lparr>executed := executed w @ [similar_chunks_cmd q]\<rparr>)"
proof (rule get_similar_chunks_texts[OF assms, where i=0])
  show "list_all (\<lambda>r. length r = length (description (chunk_rows chunks))) (rows (chunk_rows chunks))"
    by (auto simp: chunk_rows_def list_all_iff)
  show "col_index (description (chunk_rows chunks)) ''CHUNK'' = Some 0"
    by (simp add: chunk_rows_def)
  show "map (\<lambda>r. r ! 0) (rows (chunk_rows chunks)) = map PyStr (map fst chunks)"
    by (auto simp: chunk_rows_def)
qed

text \<open>
  Claim C10: the \<^verbatim>\<open>replace\<close> on the CHUNK column replaces whole values. For every result
  set whose CHUNK column holds texts, \<^verbatim>\<open>get_similar_chunks\<close> returns their concatenation
  in which only a chunk that is exactly one single quote has become empty; single quotes
  inside a chunk stay, so when no chunk is exactly a single quote the chunks are returned
  verbatim.
\<close>

theorem get_similar_chunks_whole_value_replace:
  assumes "cursor w = Some c" and "c (executed w) (similar_chunks_cmd q) = Inr rs"
    and "list_all (\<lambda>r. length r = length (description rs)) (rows rs)"
    and "col_index (description rs) ''CHUNK'' = Some i"
    and "map (\<lambda>r. r ! i) (rows rs) = map PyStr texts"
  shows "fst (get_similar_chunks q w) =
           Inr (concat (map (\<lambda>t. if t = [CHR 0x27] then [] else t) texts))
         \<and> ([CHR 0x27] \<notin> set texts \<longrightarrow> fst (get_similar_chunks q w) = Inr (concat texts))"
proof -
  have b: "blank_quote = (\<lambda>t. if t = [CHR 0x27] then [] else t)"
    by (rule ext) (simp add: blank_quote_def squote_def)
  have "[CHR 0x27] \<notin> set texts \<Longrightarrow> map blank_quote texts = texts"
    by (induction texts) (auto simp: blank_quote_def squote_def)
  then show ?thesis
    using get_similar_chunks_texts[OF assms] b by auto
qed

theorem get_similar_chunks_whole_value_replace_witness:
  "cursor (started_world (Some quoted_chunks_cursor)) = Some quoted_chunks_cursor
   \<and> quoted_chunks_cursor (executed (started_world (Some quoted_chunks_cursor))) (similar_chunks_cmd ''hi'') =
        Inr (chunk_rows [(''It's '', ''a.pdf''), (''here.'', ''b.pdf'')])
   \<and> list_all (\<lambda>r. length r = length (description (chunk_rows [(''It's '', ''a.pdf''), (''here.'', ''b.pdf'')])))
        (rows (chunk_rows [(''It's '', ''a.pdf''), (''here.'', ''b.pdf'')]))
   \<and> col_index (description (chunk_rows [(''It's '', ''a.pdf''), (''here.'', ''b.pdf'')])) ''CHUNK'' = Some 0
   \<and> map (\<lambda>r. r ! 0) (rows (chunk_rows [(''It's '', ''a.pdf''), (''here.'', ''b.pdf'')])) =
        map PyStr [''It's '', ''here.'']
   \<and> [CHR 0x27] \<notin> set [''It's '', ''here.'']
   \<and> fst (get_similar_chunks ''hi'' (started_world (Some quoted_chunks_cursor))) = Inr ''It's here.''"
proof -
  let ?w = "started_world (Some quoted_chunks_cursor)"
  let ?rs = "chunk_rows [(''It's '', ''a.pdf''), (''here.'', ''b.pdf'')]"
  have c: "cursor ?w = Some quoted_chunks_cursor" by (simp add: started_world_def initial_world_def)
  have a: "quoted_chunks_cursor (executed ?w) (similar_chunks_cmd ''hi'') = Inr ?rs"
    by (simp add: quoted_chunks_cursor_def)
  have l: "list_all (\<lambda>r. length r = length (description ?rs)) (rows ?rs)"
    by (simp add: chunk_rows_def)
  have i: "col_index (description ?rs) ''CHUNK'' = Some 0"
    by (simp add: chunk_rows_def)
  have t: "map (\<lambda>r. r ! 0) (rows ?rs) = map PyStr [''It's '', ''here.'']"
    by (simp add: chunk_rows_def)
  have n: "[CHR 0x27] \<notin> set [''It's '', ''here.'']" by simp
  show ?thesis
    using c a l i t n get_similar_chunks_whole_value_replace [OF c a l i t] by simp
qed


text \<open>
  The rest of what C6 says holds on the code. On a service that answers the ranking
  statement with chunk rows, none of them exactly one single quote,
  \<^verbatim>\<open>get_similar_chunks\<close> executes exactly the ranking statement, which orders by
  similarity descending and is limited to 3 rows, and returns the concatenation of the
  chunk texts without separator; with zero rows the result is the empty string, and
  \<^verbatim>\<open>create_prompt\<close> returns a prompt whose context segment is empty.
\<close>

lemma get_similar_chunks_ranking:
  assumes "cursor w = Some c"
    and "\<And>hist a. c hist (similar_chunks_cmd a) = Inr (chunk_rows (chunks a))"
    and "\<And>a. squote \<notin> fst ` set (chunks a)"
  shows "get_similar_chunks q w =
           (Inr (concat (map fst (chunks q))),
            w\<lparr>executed := executed w @ [similar_chunks_cmd q]\<rparr>)
     \<and> similar_chunks_cmd q =
         nl @ ''        WITH results AS ('' @ nl @
         ''            SELECT RELATIVE_PATH, '' @ nl @
         ''            VECTOR_COSINE_SIMILARITY(docs_chunks_table.chunk_vec, '' @ nl @
         ''            SNOWFLAKE.CORTEX.EMBED_TEXT_768('' @ squote @ ''e5-base-v2'' @ squote @ '', '' @ squote @ q @ squote @ '')) AS similarity, '' @ nl @
         ''            chunk'' @ nl @
         ''            FROM docs_chunks_table'' @ nl @
         ''            ORDER BY similarity DESC'' @ nl @
         ''            LIMIT 3'' @ nl @
         ''        )'' @ nl @
         ''        SELECT chunk, relative_path FROM results'' @ nl @
         ''    ''
     \<and> (chunks q = [] \<longrightarrow> fst (get_similar_chunks q w) = Inr [])
     \<and> (messages w \<noteq> None \<and> (\<forall>a. chunks a = []) \<longrightarrow>
          (\<exists>hist. fst (create_prompt q w) = Inr (prompt_template hist [] q)))"
proof -
  have keep: "squote \<notin> set ts \<Longrightarrow> map blank_quote ts = ts" for ts
    by (induction ts) (auto simp: blank_quote_def)
  have same: "map blank_quote (map fst (chunks a)) = map fst (chunks a)" for a
    using assms(3)[of a] by (intro keep) simp
  have run: "get_similar_chunks a v =
      (Inr (concat (map fst (chunks a))),
       v\<lparr>executed := executed v @ [similar_chunks_cmd a]\<rparr>)" if "cursor v = Some c" for a v
    using get_similar_chunks_chunk_rows[OF that assms(2), of a] by (simp only: same)
  have cmd: "str_int num_chunks = ''3''"
    by code_simp
  have flow: "\<exists>hist. fst (create_prompt q w) = Inr (prompt_template hist [] q)"
    if m: "messages w \<noteq> None" and z: "\<forall>a. chunks a = []"
  proof -
    obtain msgs where "messages w = Some msgs" using m by auto
    from create_prompt_frame[OF this, of q] obtain hist ctx w' arg w1 w2 where
      cp: "create_prompt q w = (Inr (prompt_template hist ctx q), w')"
      and c1: "cursor w1 = cursor w" and g: "get_similar_chunks arg w1 = (Inr ctx, w2)"
      by blast
    have "ctx = []"
      using run[of w1 arg] c1 assms(1) g z by simp
    then show ?thesis using cp by auto
  qed
  show ?thesis
    using run[OF assms(1), of q] cmd flow by (simp add: similar_chunks_cmd_def)
qed

text \<open>
  A turn in which the retrieval finds nothing and the completion answers runs to its end:
  the answer is appended to the conversation.
\<close>

lemma turn_completes_without_chunks:
  "fst (rerun (ask ''hi'') (initial_world (Some retrieval_empty_cursor))) = Inr ()
   \<and> messages (snd (rerun (ask ''hi'') (initial_world (Some retrieval_empty_cursor)))) =
       Some [\<lparr>role = ''user'', content = ''hi''\<rparr>,
             \<lparr>role = ''assistant'', content = ''I do not know.''\<rparr>]
   \<and> executed (snd (rerun (ask ''hi'') (initial_world (Some retrieval_empty_cursor)))) ! 2 =
       similar_chunks_cmd ''hi''"
  by code_simp

text \<open>
  Claim C8: in a chat turn on a live cursor, the statements executed are the ranking
  statement and the completion statement, preceded by the summarisation statement when
  there is history. The text interpolated into the ranking statement is the question with
  every single quote removed, or the summary; neither contains a single quote.
\<close>

theorem main_chat_statements:
  assumes "q \<noteq> []" and "messages w = Some msgs" and "cursor w = Some c"
  shows "\<exists>pre p. executed (snd (main_chat (Some q) w)) =
            executed w @ pre @ [cortex_complete_cmd (model_name w) p]
          \<and> (pre = [similar_chunks_cmd (str_replace (CHR 0x27) [] q)]
              \<or> (\<exists>p0 s. pre = [cortex_complete_cmd (model_name w) p0, similar_chunks_cmd s]
                    \<and> CHR 0x27 \<notin> set s))
          \<and> CHR 0x27 \<notin> set (str_replace (CHR 0x27) [] q)"
proof -
  let ?q = "str_replace (CHR 0x27) [] q"
  let ?w1 = "w\<lparr>messages := Some (msgs @ [\<lparr>role = ''user'', content = q\<rparr>]),
      ui := ui w @ [St_chat_message ''user'', St_markdown q, St_chat_message ''assistant'',
        St_spinner (model_name w @ '' thinking...'')]\<rparr>"
  obtain r w2 where c: "complete ?q ?w1 = (r, w2)"
    by (cases "complete ?q ?w1")
  have m1: "messages ?w1 = Some (msgs @ [\<lparr>role = ''user'', content = q\<rparr>])" by simp
  from complete_frameD[OF c m1] assms(3) obtain x pre p where
    r: "r = Inr x" and l: "only_log ?w1 (pre @ [cortex_complete_cmd (model_name w) p]) w2"
    and t: "turn_stmts (model_name w) ?q pre"
    by auto
  have e2: "executed w2 = executed w @ pre @ [cortex_complete_cmd (model_name w) p]"
    and m2: "messages w2 = Some (msgs @ [\<lparr>role = ''user'', content = q\<rparr>])"
    using l by (simp_all add: only_log_def)
  have "executed (snd (main_chat (Some q) w)) = executed w2"
    using assms(1,2) c r m2
    by (auto simp add: main_chat_def py_bind_def py_get_def py_return_def st_emit_def
        session_append_def py_lift_def py_raise_def Let_def
        split: sum.splits option.splits)
  then show ?thesis
    using e2 t by (auto simp: turn_stmts_def str_replace_no_old)
qed

theorem main_chat_statements_witness:
  "''what's new'' \<noteq> [] \<and> messages (started_world (Some answering_cursor)) = Some []
   \<and> cursor (started_world (Some answering_cursor)) = Some answering_cursor
   \<and> (\<exists>pre p. executed (snd (main_chat (Some ''what's new'') (started_world (Some answering_cursor)))) =
            executed (started_world (Some answering_cursor)) @ pre @
              [cortex_complete_cmd (model_name (started_world (Some answering_cursor))) p]
          \<and> (pre = [similar_chunks_cmd (str_replace (CHR 0x27) [] ''what's new'')]
              \<or> (\<exists>p0 s. pre = [cortex_complete_cmd (model_name (started_world (Some answering_cursor))) p0,
                                similar_chunks_cmd s]
                    \<and> CHR 0x27 \<notin> set s))
          \<and> CHR 0x27 \<notin> set (str_replace (CHR 0x27) [] ''what's new''))"
proof -
  let ?w = "started_world (Some answering_cursor)"
  have q: "''what's new'' \<noteq> []" by simp
  have m: "messages ?w = Some []" by (simp add: started_world_def)
  have c: "cursor ?w = Some answering_cursor" by (simp add: started_world_def initial_world_def)
  show ?thesis
    using q m c main_chat_statements [OF q m c] by blast
qed

subsection \<open>The history summarizer\<close>

text \<open>
  Claim C7 says that \<^verbatim>\<open>summarize_question_with_history\<close> returns the model's text or the
  empty string. The model answers \<^verbatim>\<open>It's 42.\<close>; the function returns \<^verbatim>\<open>Its 42.\<close>
\<close>

theorem summarize_strips_quotes_counterexample:
  "answering_cursor [] (summarize_cmd [] [''What is X?''] ''And Y?'') =
     Inr \<lparr>description = [''RESPONSE''], rows = [[PyStr ''It's 42.'']]\<rparr>
   \<and> fst (summarize_question_with_history [''What is X?''] ''And Y?'' (started_world (Some answering_cursor)))
       = Inr ''Its 42.''
   \<and> ''Its 42.'' \<noteq> ''It's 42.'' \<and> ''Its 42.'' \<noteq> []"
  by code_simp

text \<open>
  Claim C7 as amended: \<^verbatim>\<open>summarize_question_with_history\<close> never raises. It returns the
  empty string, or the text in the RESPONSE column of the first row of the model's answer
  with every single quote removed; when there is no cursor or the remote call fails, it
  returns the empty string.
\<close>

theorem summarize_never_raises:
  "\<exists>s. fst (summarize_question_with_history h q w) = Inr s
     \<and> (s = [] \<or>
         (\<exists>c rs r rest i t. cursor w = Some c
            \<and> c (executed w) (summarize_cmd (model_name w) h q) = Inr rs
            \<and> rows rs = r # rest \<and> col_index (description rs) ''RESPONSE'' = Some i
            \<and> r ! i = PyStr t \<and> s = str_replace (CHR 0x27) [] t))
     \<and> (cursor w = None
          \<or> (\<exists>c e. cursor w = Some c \<and> c (executed w) (summarize_cmd (model_name w) h q) = Inl e)
         \<longrightarrow> s = [])"
proof (cases "cursor w")
  case None
  then show ?thesis
    by (simp add: summarize_question_with_history_def py_try_def py_bind_def cursor_execute_def
        py_get_def py_return_def st_emit_def Let_def)
next
  case (Some c)
  let ?cmd = "summarize_cmd (model_name w) h q"
  show ?thesis
  proof (cases "c (executed w) ?cmd")
    case (Inl e)
    then show ?thesis
      using Some
      by (simp add: summarize_question_with_history_def summarize_cmd_def py_try_def py_bind_def
          cursor_execute_def execute_def py_get_def py_return_def st_emit_def Let_def)
  next
    case (Inr rs)
    have "\<exists>s. fst (summarize_question_with_history h q w) = Inr s
       \<and> (s = [] \<or> (\<exists>r rest i t. rows rs = r # rest
             \<and> col_index (description rs) ''RESPONSE'' = Some i
             \<and> r ! i = PyStr t \<and> s = str_replace (CHR 0x27) [] t))"
      using Some Inr
      by (auto simp add: summarize_question_with_history_def summarize_cmd_def py_try_def
          py_bind_def cursor_execute_def execute_def py_get_def py_return_def py_lift_def
          st_emit_def Let_def pd_DataFrame_def df_empty_def df_iloc0_getitem_def
          split: sum.splits list.splits option.splits cell.splits
          elim!: cell_replace.elims)
    then show ?thesis
      using Some Inr by auto
  qed
qed

theorem summarize_never_raises_witness:
  "(\<exists>c e. cursor (started_world (Some failing_cursor)) = Some c
       \<and> c (executed (started_world (Some failing_cursor)))
            (summarize_cmd (model_name (started_world (Some failing_cursor))) [''What is X?''] ''And Y?'') = Inl e)
   \<and> fst (summarize_question_with_history [''What is X?''] ''And Y?'' (started_world (Some failing_cursor))) = Inr []"
proof -
  let ?w = "started_world (Some failing_cursor)"
  have a: "\<exists>c e. cursor ?w = Some c
       \<and> c (executed ?w) (summarize_cmd (model_name ?w) [''What is X?''] ''And Y?'') = Inl e"
    by (simp add: started_world_def initial_world_def failing_cursor_def)
  show ?thesis
    using a summarize_never_raises [of "[''What is X?'']" "''And Y?''" ?w] by auto
qed

subsection \<open>The prompt assembler\<close>

text \<open>
  Claim C5 says that \<^verbatim>\<open>create_prompt\<close> executes no query and has no side effect. On a
  live cursor it executes the ranking statement, and here it also renders the error of the
  retrieval.
\<close>

theorem create_prompt_executes_counterexample:
  "executed (started_world (Some answering_cursor)) = []
   \<and> executed (snd (create_prompt ''hi'' (started_world (Some answering_cursor)))) = [similar_chunks_cmd ''hi'']
   \<and> ui (started_world (Some answering_cursor)) = []
   \<and> ui (snd (create_prompt ''hi'' (started_world (Some answering_cursor)))) =
       [St_error_exn ''Error fetching similar chunks: '' (KeyError ''CHUNK'')]"
  by code_simp

text \<open>
  Claim C5 as amended: \<^verbatim>\<open>create_prompt\<close> takes the question only and is not pure. It
  reads the chat history with \<^verbatim>\<open>get_chat_history\<close>. When the history is switched on and
  not empty it calls \<^verbatim>\<open>summarize_question_with_history\<close> and retrieves the context for
  the summary; otherwise it retrieves the context for the question. Retrieval is
  \<^verbatim>\<open>get_similar_chunks\<close>, so on a live cursor the statements executed are the
  summarisation statement (on that route only) and the ranking statement. With the debug
  flag set it renders the context and the history. It returns one string: the
  instructions (be concise, do not hallucinate, do not mention the context or the chat
  history) followed by the four tagged segments, filled with the formatted history (empty
  when the history is switched off), the retrieved context and the question, and ending
  with the answer cue.
\<close>

theorem create_prompt_retrieves_and_fills:
  assumes "messages w = Some msgs"
  shows "\<exists>h arg ctx w1 w2.
       get_chat_history w = (Inr h, w)
     \<and> (if use_chat_history w \<and> h \<noteq> []
         then summarize_question_with_history h q w = (Inr arg, w1)
         else arg = q \<and> w1 = w)
     \<and> get_similar_chunks arg w1 = (Inr ctx, w2)
     \<and> create_prompt q w =
         (Inr (prompt_template (if use_chat_history w then str_list (repr_str w) h else []) ctx q),
          if debug w
          then w2\<lparr>ui := ui w2 @
                 [St_write (''Prompt Context: '' @ ctx),
                  St_write (''Chat History: '' @
                    (if use_chat_history w then str_list (repr_str w) h else []))]\<rparr>
          else w2)
     \<and> (cursor w \<noteq> None \<longrightarrow>
          executed w2 = executed w @
            (if use_chat_history w \<and> h \<noteq> [] then [summarize_cmd (model_name w) h q] else []) @
            [similar_chunks_cmd arg])
     \<and> prompt_template (if use_chat_history w then str_list (repr_str w) h else []) ctx q =
         prompt_instructions @
         ''       <chat_history>'' @ nl @ ''       '' @
           (if use_chat_history w then str_list (repr_str w) h else []) @ nl @
         ''       </chat_history>'' @ nl @
         ''       <context>          '' @ nl @ ''       '' @ ctx @ nl @ ''       </context>'' @ nl @
         ''       <question>  '' @ nl @ ''       '' @ q @ nl @ ''       </question>'' @ nl @
         ''       Answer:'' @ nl @ ''       ''"
proof -
  obtain h where h: "get_chat_history w = (Inr h, w)"
    using get_chat_history_total[OF assms] by blast
  let ?hist = "if use_chat_history w then str_list (repr_str w) h else []"
  have t: "prompt_template ?hist ctx q =
         prompt_instructions @
         ''       <chat_history>'' @ nl @ ''       '' @ ?hist @ nl @
         ''       </chat_history>'' @ nl @
         ''       <context>          '' @ nl @ ''       '' @ ctx @ nl @ ''       </context>'' @ nl @
         ''       <question>  '' @ nl @ ''       '' @ q @ nl @ ''       </question>'' @ nl @
         ''       Answer:'' @ nl @ ''       ''" for ctx
    by (simp add: prompt_template_def prompt_instructions_def)
  show ?thesis
  proof (cases "use_chat_history w \<and> h \<noteq> []")
    case True
    obtain s1 w1 where s: "summarize_question_with_history h q w = (Inr s1, w1)"
      and l1: "only_log w (if cursor w = None then [] else [summarize_cmd (model_name w) h q]) w1"
      using summarize_frame[of h q w] unfolding summarize_cmd_def by blast
    obtain ctx w2 where g: "get_similar_chunks s1 w1 = (Inr ctx, w2)"
      and l2: "only_log w1 (if cursor w1 = None then [] else [similar_chunks_cmd s1]) w2"
      using get_similar_chunks_frame[of s1 w1] by blast
    have f1: "cursor w1 = cursor w" using l1 by (simp add: only_log_def)
    have l12: "only_log w ((if cursor w = None then [] else [summarize_cmd (model_name w) h q]) @
        (if cursor w = None then [] else [similar_chunks_cmd s1])) w2"
      using only_log_trans[OF l1 l2] f1 by simp
    then have f2: "debug w2 = debug w" "repr_str w2 = repr_str w"
      and e2: "cursor w \<noteq> None \<longrightarrow>
        executed w2 = executed w @ [summarize_cmd (model_name w) h q] @ [similar_chunks_cmd s1]"
      by (auto simp add: only_log_def)
    have run: "create_prompt q w =
        (Inr (prompt_template ?hist ctx q),
         if debug w
         then w2\<lparr>ui := ui w2 @ [St_write (''Prompt Context: '' @ ctx),
                St_write (''Chat History: '' @ ?hist)]\<rparr>
         else w2)"
      using True h s g f2
      by (simp add: create_prompt_def py_bind_def py_get_def py_return_def st_emit_def)
    have route: "if use_chat_history w \<and> h \<noteq> []
        then summarize_question_with_history h q w = (Inr s1, w1) else s1 = q \<and> w1 = w"
      using True s by simp
    have ex: "cursor w \<noteq> None \<longrightarrow>
        executed w2 = executed w @
          (if use_chat_history w \<and> h \<noteq> [] then [summarize_cmd (model_name w) h q] else []) @
          [similar_chunks_cmd s1]"
      using True e2 by simp
    show ?thesis
      using h route g run ex t[of ctx] by blast
  next
    case False
    obtain ctx w2 where g: "get_similar_chunks q w = (Inr ctx, w2)"
      and l2: "only_log w (if cursor w = None then [] else [similar_chunks_cmd q]) w2"
      using get_similar_chunks_frame[of q w] by blast
    then have f2: "debug w2 = debug w" "repr_str w2 = repr_str w"
      and e2: "cursor w \<noteq> None \<longrightarrow> executed w2 = executed w @ [similar_chunks_cmd q]"
      by (auto simp add: only_log_def)
    have run: "create_prompt q w =
        (Inr (prompt_template ?hist ctx q),
         if debug w
         then w2\<lparr>ui := ui w2 @ [St_write (''Prompt Context: '' @ ctx),
                St_write (''Chat History: '' @ ?hist)]\<rparr>
         else w2)"
      using False h g f2
      by (auto simp add: create_prompt_def py_bind_def py_get_def py_return_def st_emit_def)
    have route: "if use_chat_history w \<and> h \<noteq> []
        then summarize_question_with_history h q w = (Inr q, w) else q = q \<and> w = w"
      using False by auto
    have ex: "cursor w \<noteq> None \<longrightarrow>
        executed w2 = executed w @
          (if use_chat_history w \<and> h \<noteq> [] then [summarize_cmd (model_name w) h q] else []) @
          [similar_chunks_cmd q]"
      using False e2 by auto
    show ?thesis
      using h route g run ex t[of ctx] by blast
  qed
qed

theorem create_prompt_retrieves_and_fills_witness:
  "messages history_world = Some three_messages
   \<and> use_chat_history history_world
   \<and> get_chat_history history_world = (Inr [''What is X?'', ''X is a product.''], history_world)
   \<and> (\<exists>arg ctx w1 w2.
        summarize_question_with_history [''What is X?'', ''X is a product.''] ''And Y?'' history_world =
          (Inr arg, w1)
      \<and> get_similar_chunks arg w1 = (Inr ctx, w2)
      \<and> fst (create_prompt ''And Y?'' history_world) =
          Inr (prompt_template
                (str_list (repr_str history_world) [''What is X?'', ''X is a product.'']) ctx ''And Y?'')
      \<and> executed w2 = executed history_world @
          [summarize_cmd (model_name history_world) [''What is X?'', ''X is a product.''] ''And Y?'',
           similar_chunks_cmd arg])"
proof -
  have m: "messages history_world = Some three_messages"
    by (simp add: history_world_def)
  have u: "use_chat_history history_world"
    by (simp add: history_world_def)
  have c: "cursor history_world \<noteq> None"
    by (simp add: history_world_def initial_world_def)
  have v: "fst (get_chat_history history_world) = Inr [''What is X?'', ''X is a product.'']"
    by code_simp
  from create_prompt_retrieves_and_fills [OF m, of "''And Y?''"] obtain h arg ctx w1 w2 where
    h: "get_chat_history history_world = (Inr h, history_world)"
    and s: "if use_chat_history history_world \<and> h \<noteq> []
         then summarize_question_with_history h ''And Y?'' history_world = (Inr arg, w1)
         else arg = ''And Y?'' \<and> w1 = history_world"
    and g: "get_similar_chunks arg w1 = (Inr ctx, w2)"
    and r: "create_prompt ''And Y?'' history_world =
         (Inr (prompt_template (if use_chat_history history_world
                 then str_list (repr_str history_world) h else []) ctx ''And Y?''),
          if debug history_world
          then w2\<lparr>ui := ui w2 @
                 [St_write (''Prompt Context: '' @ ctx),
                  St_write (''Chat History: '' @
                    (if use_chat_history history_world then str_list (repr_str history_world) h else []))]\<rparr>
          else w2)"
    and e: "cursor history_world \<noteq> None \<longrightarrow>
          executed w2 = executed history_world @
            (if use_chat_history history_world \<and> h \<noteq> []
             then [summarize_cmd (model_name history_world) h ''And Y?''] else []) @
            [similar_chunks_cmd arg]"
    by blast
  have hv: "h = [''What is X?'', ''X is a product.'']"
    using h v by simp
  show ?thesis
    using m u c h s g r e unfolding hv
    by (intro conjI exI[of _ arg] exI[of _ ctx] exI[of _ w1] exI[of _ w2]) simp_all
qed

end
